theory Spec2Isabelle
  imports Complex_Main "HOL-Library.Word" "HOL-Library.Code_Target_Numeral"
begin

section \<open>Data model\<close>

text \<open>
  The transfer shape \<^verbatim>\<open>ItemDTO\<close> and the persisted document \<^verbatim>\<open>DocumentItem\<close> have the
  fields \<^verbatim>\<open>id\<close>, \<^verbatim>\<open>name\<close> and \<^verbatim>\<open>price\<close>. The field names carry a prefix, since \<open>id\<close> is
  the identity function of HOL and two records cannot share field names. The service
  never computes with a price, it only hands it on, so the type of prices is a
  parameter \<open>'p\<close>. Identifiers are integers.
\<close>

record 'p ItemDTO =
  dto_id :: int
  dto_name :: string
  dto_price :: 'p

record 'p DocumentItem =
  doc_id :: int
  doc_name :: string
  doc_price :: 'p

text \<open>
  A rejected promise is a value: the only error the service constructs itself is
  \<^verbatim>\<open>ItemNotFoundError\<close>; a rejection of the store, of whatever kind \<open>'e\<close>, travels in
  \<open>StoreFailure\<close>.
\<close>

datatype 'e failure = ItemNotFoundError | StoreFailure 'e

text \<open>
  Modelled from the spec: \<^verbatim>\<open>toDTO\<close> of \<^verbatim>\<open>../utils\<close>, which the sources do not contain.
  The spec calls it a pure, total, structure-preserving projection that drops and
  renames no field.
\<close>

definition toDTO :: "'p DocumentItem \<Rightarrow> 'p ItemDTO" where
  "toDTO item = \<lparr>dto_id = doc_id item, dto_name = doc_name item, dto_price = doc_price item\<rparr>"

text \<open>
  Modelled from the spec: the constructor \<^verbatim>\<open>new Item(dto)\<close> of the model in \<^verbatim>\<open>../models\<close>,
  which the sources do not contain. The spec: a new Item is constructed from the
  DTO's \<^verbatim>\<open>id\<close>, \<^verbatim>\<open>name\<close>, \<^verbatim>\<open>price\<close>.
\<close>

definition new_Item :: "'p ItemDTO \<Rightarrow> 'p DocumentItem" where
  "new_Item dto = \<lparr>doc_id = dto_id dto, doc_name = dto_name dto, doc_price = dto_price dto\<rparr>"

section \<open>The store as the service sees it\<close>

text \<open>
  The service reaches the store through five calls on the model \<^verbatim>\<open>Item\<close>. Each call
  takes the state \<open>'st\<close> of the store, leaves a state behind and either rejects with a
  store failure \<open>'e\<close> or resolves with a value; \<^verbatim>\<open>null\<close> is \<open>None\<close>. The filter is always
  \<^verbatim>\<open>{ id }\<close> and the patch always \<^verbatim>\<open>{ name, price }\<close>, so the calls take these
  components as arguments. The service below is written over any such model.
\<close>

record ('st, 'e, 'p) Model =
  find_exec :: "'st \<Rightarrow> ('e + 'p DocumentItem list) \<times> 'st"
  findOne :: "int \<Rightarrow> 'st \<Rightarrow> ('e + 'p DocumentItem option) \<times> 'st"
  save :: "'p DocumentItem \<Rightarrow> 'st \<Rightarrow> ('e + 'p DocumentItem) \<times> 'st"
  findOneAndUpdate :: "int \<Rightarrow> string \<Rightarrow> 'p \<Rightarrow> 'st \<Rightarrow> ('e + 'p DocumentItem option) \<times> 'st"
  findOneAndDelete :: "int \<Rightarrow> 'st \<Rightarrow> ('e + 'p DocumentItem option) \<times> 'st"

section \<open>ItemService\<close>

text \<open>
  Each method awaits one call of the store. A rejection of that call rejects the
  method with the same error, as \<^verbatim>\<open>await\<close> does without a surrounding \<^verbatim>\<open>try\<close>;
  a \<^verbatim>\<open>null\<close> result throws \<^verbatim>\<open>ItemNotFoundError\<close> where the source tests \<^verbatim>\<open>!item\<close>.
\<close>

definition ItemService_list ::
  "('st, 'e, 'p) Model \<Rightarrow> 'st \<Rightarrow> ('e failure + 'p ItemDTO list) \<times> 'st" where
  "ItemService_list M s =
     (case find_exec M s of
        (Inl e, s') \<Rightarrow> (Inl (StoreFailure e), s')
      | (Inr items, s') \<Rightarrow> (Inr (map toDTO items), s'))"

definition ItemService_get ::
  "('st, 'e, 'p) Model \<Rightarrow> int \<Rightarrow> 'st \<Rightarrow> ('e failure + 'p ItemDTO) \<times> 'st" where
  "ItemService_get M i s =
     (case findOne M i s of
        (Inl e, s') \<Rightarrow> (Inl (StoreFailure e), s')
      | (Inr None, s') \<Rightarrow> (Inl ItemNotFoundError, s')
      | (Inr (Some item), s') \<Rightarrow> (Inr (toDTO item), s'))"

definition ItemService_create ::
  "('st, 'e, 'p) Model \<Rightarrow> 'p ItemDTO \<Rightarrow> 'st \<Rightarrow> ('e failure + 'p ItemDTO) \<times> 'st" where
  "ItemService_create M dto s =
     (let newItem = new_Item dto in
      case save M newItem s of
        (Inl e, s') \<Rightarrow> (Inl (StoreFailure e), s')
      | (Inr createdItem, s') \<Rightarrow> (Inr (toDTO createdItem), s'))"

definition ItemService_update ::
  "('st, 'e, 'p) Model \<Rightarrow> 'p ItemDTO \<Rightarrow> 'st \<Rightarrow> ('e failure + 'p ItemDTO) \<times> 'st" where
  "ItemService_update M dto s =
     (case findOneAndUpdate M (dto_id dto) (dto_name dto) (dto_price dto) s of
        (Inl e, s') \<Rightarrow> (Inl (StoreFailure e), s')
      | (Inr None, s') \<Rightarrow> (Inl ItemNotFoundError, s')
      | (Inr (Some item), s') \<Rightarrow> (Inr (toDTO item), s'))"

text \<open>
  \<^verbatim>\<open>delete\<close> resolves with \<^verbatim>\<open>null\<close>; its declared type \<^verbatim>\<open>Promise<null>\<close> has that one
  value, which is the one value of \<open>unit\<close>.
\<close>

definition ItemService_delete ::
  "('st, 'e, 'p) Model \<Rightarrow> int \<Rightarrow> 'st \<Rightarrow> ('e failure + unit) \<times> 'st" where
  "ItemService_delete M i s =
     (case findOneAndDelete M i s of
        (Inl e, s') \<Rightarrow> (Inl (StoreFailure e), s')
      | (Inr None, s') \<Rightarrow> (Inl ItemNotFoundError, s')
      | (Inr (Some item), s') \<Rightarrow> (Inr (), s'))"

section \<open>A document collection\<close>

text \<open>
  Modelled from the spec: the model \<^verbatim>\<open>Item\<close> of \<^verbatim>\<open>../models\<close> and the collection behind
  it, which the sources do not contain. The collection is the sequence of its
  documents in the order the store returns them. The spec leaves open whether the
  store enforces unique identifiers; \<open>unique_id\<close> says whether this one does. A
  collection that does rejects the insertion of a second document with a stored
  identifier with \<open>DuplicateKey\<close>. The find-one calls act on the first document, in
  store order, whose \<^verbatim>\<open>id\<close> equals the filter's; \<^verbatim>\<open>findOneAndUpdate\<close> is called with
  \<^verbatim>\<open>{ new: true }\<close> and resolves with the document as it is after the patch,
  \<^verbatim>\<open>findOneAndDelete\<close> with the document it removed.
\<close>

record 'p collection =
  docs :: "'p DocumentItem list"
  unique_id :: bool

datatype store_error = DuplicateKey

definition has_id :: "int \<Rightarrow> 'p DocumentItem list \<Rightarrow> bool" where
  "has_id i ds = (i \<in> set (map doc_id ds))"

fun update_first :: "int \<Rightarrow> string \<Rightarrow> 'p \<Rightarrow> 'p DocumentItem list
    \<Rightarrow> 'p DocumentItem option \<times> 'p DocumentItem list" where
  "update_first i n p [] = (None, [])"
| "update_first i n p (d # ds) =
     (if doc_id d = i
      then (Some (d\<lparr>doc_name := n, doc_price := p\<rparr>), d\<lparr>doc_name := n, doc_price := p\<rparr> # ds)
      else (case update_first i n p ds of (r, ds') \<Rightarrow> (r, d # ds')))"

fun delete_first :: "int \<Rightarrow> 'p DocumentItem list
    \<Rightarrow> 'p DocumentItem option \<times> 'p DocumentItem list" where
  "delete_first i [] = (None, [])"
| "delete_first i (d # ds) =
     (if doc_id d = i then (Some d, ds)
      else (case delete_first i ds of (r, ds') \<Rightarrow> (r, d # ds')))"

definition Item_find_exec :: "'p collection \<Rightarrow> (store_error + 'p DocumentItem list) \<times> 'p collection" where
  "Item_find_exec s = (Inr (docs s), s)"

definition Item_findOne ::
  "int \<Rightarrow> 'p collection \<Rightarrow> (store_error + 'p DocumentItem option) \<times> 'p collection" where
  "Item_findOne i s = (Inr (List.find (\<lambda>d. doc_id d = i) (docs s)), s)"

definition Item_save ::
  "'p DocumentItem \<Rightarrow> 'p collection \<Rightarrow> (store_error + 'p DocumentItem) \<times> 'p collection" where
  "Item_save d s =
     (if unique_id s \<and> has_id (doc_id d) (docs s) then (Inl DuplicateKey, s)
      else (Inr d, s\<lparr>docs := docs s @ [d]\<rparr>))"

definition Item_findOneAndUpdate ::
  "int \<Rightarrow> string \<Rightarrow> 'p \<Rightarrow> 'p collection
    \<Rightarrow> (store_error + 'p DocumentItem option) \<times> 'p collection" where
  "Item_findOneAndUpdate i n p s =
     (case update_first i n p (docs s) of (r, ds') \<Rightarrow> (Inr r, s\<lparr>docs := ds'\<rparr>))"

definition Item_findOneAndDelete ::
  "int \<Rightarrow> 'p collection \<Rightarrow> (store_error + 'p DocumentItem option) \<times> 'p collection" where
  "Item_findOneAndDelete i s =
     (case delete_first i (docs s) of (r, ds') \<Rightarrow> (Inr r, s\<lparr>docs := ds'\<rparr>))"

definition Item :: "('p collection, store_error, 'p) Model" where
  "Item = \<lparr>find_exec = Item_find_exec, findOne = Item_findOne, save = Item_save,
           findOneAndUpdate = Item_findOneAndUpdate, findOneAndDelete = Item_findOneAndDelete\<rparr>"

section \<open>Configuration\<close>

text \<open>
  \<^verbatim>\<open>config.ts\<close> reads two variables of \<^verbatim>\<open>process.env\<close> once, when the module is loaded.
  A JavaScript string is a sequence of UTF-16 code units; \<open>lit\<close> is the string that an
  ASCII literal of the source denotes. The source names the variables by ASCII
  identifiers, so the environment is a partial map from such names to strings.
\<close>

type_synonym js_string = "16 word list"

definition lit :: "string \<Rightarrow> js_string" where
  "lit s = map of_char s"

text \<open>
  The numbers that \<^verbatim>\<open>parseInt\<close> can return: \<open>NaN\<close>, the two infinities, negative zero,
  and the integers that are IEEE doubles, \<open>Num 0\<close> being positive zero.
\<close>

datatype js_number = NaN | Infinity | NegInfinity | NegZero | Num int

text \<open>
  The white space and line terminators that ECMAScript's \<^verbatim>\<open>TrimString\<close> removes:
  TAB, LF, VT, FF, CR, SP, NBSP, U+1680, U+2000 to U+200A, U+2028, U+2029, U+202F,
  U+205F, U+3000 and U+FEFF, each a single code unit.
\<close>

definition is_white_space :: "16 word \<Rightarrow> bool" where
  "is_white_space c =
     (let n = unat c in
      n \<in> set [0x9, 0xA, 0xB, 0xC, 0xD, 0x20, 0xA0, 0x1680, 0x2028, 0x2029, 0x202F,
                0x205F, 0x3000, 0xFEFF]
      \<or> (0x2000 \<le> n \<and> n \<le> 0x200A))"

text \<open>
  The value of a digit \<^verbatim>\<open>0\<close> to \<^verbatim>\<open>9\<close>, \<^verbatim>\<open>a\<close> to \<^verbatim>\<open>z\<close> or \<^verbatim>\<open>A\<close> to \<^verbatim>\<open>Z\<close>; any
  other code unit gets 36, which is a digit of no radix.
\<close>

definition digit_value :: "16 word \<Rightarrow> nat" where
  "digit_value c =
     (let n = unat c in
      if 48 \<le> n \<and> n \<le> 57 then n - 48
      else if 97 \<le> n \<and> n \<le> 122 then n - 87
      else if 65 \<le> n \<and> n \<le> 90 then n - 55
      else 36)"

definition trim_start :: "js_string \<Rightarrow> js_string" where
  "trim_start s = dropWhile is_white_space s"

text \<open>One leading \<^verbatim>\<open>-\<close> (U+002D) or \<^verbatim>\<open>+\<close> (U+002B) is read as the sign.\<close>

fun strip_sign :: "js_string \<Rightarrow> int \<times> js_string" where
  "strip_sign [] = (1, [])"
| "strip_sign (c # cs) =
     (if c = 0x2D then (- 1, cs) else if c = 0x2B then (1, cs) else (1, c # cs))"

definition ToInt32 :: "int \<Rightarrow> int" where
  "ToInt32 x = (let m = x mod 2 ^ 32 in if 2 ^ 31 \<le> m then m - 2 ^ 32 else m)"

fun bit_length :: "nat \<Rightarrow> nat" where
  "bit_length n = (if n = 0 then 0 else Suc (bit_length (n div 2)))"

declare bit_length.simps [simp del]

text \<open>
  The double nearest to a natural number, as the conversion of a mathematical value to
  a Number prescribes: exact below \<open>2 ^ 53\<close>; above, the 53 leading bits are kept and
  the rest is rounded to nearest, a tie going to the even significand; a result of
  \<open>2 ^ 1024\<close> or more is no finite double (\<open>None\<close>).
\<close>

definition round_to_double :: "nat \<Rightarrow> nat option" where
  "round_to_double n =
     (if n < 2 ^ 53 then Some n
      else
        let e = bit_length n - 53;
            q = n div 2 ^ e;
            r = n mod 2 ^ e;
            h = 2 ^ (e - 1);
            q' = (if h < r \<or> (r = h \<and> odd q) then q + 1 else q);
            v = q' * 2 ^ e
        in if 2 ^ 1024 \<le> v then None else Some v)"

definition to_number :: "int \<Rightarrow> nat \<Rightarrow> js_number" where
  "to_number sign mathInt =
     (if mathInt = 0 then (if sign < 0 then NegZero else Num 0)
      else case round_to_double mathInt of
             None \<Rightarrow> (if sign < 0 then NegInfinity else Infinity)
           | Some v \<Rightarrow> Num (sign * int v))"

text \<open>
  \<^verbatim>\<open>parseInt(string, radix)\<close> as ECMAScript defines it: leading white space is
  skipped, one sign is read, the radix goes through \<^verbatim>\<open>ToInt32\<close>, a \<^verbatim>\<open>0x\<close> prefix is
  removed only for radix 0 or 16, and the longest prefix of digits of the radix is
  the value, converted to a Number; no digit at all gives \<open>NaN\<close>. ECMAScript allows an
  implementation to approximate the digits after the 20th; the model does not use
  that latitude.
\<close>

definition parseInt :: "js_string \<Rightarrow> int \<Rightarrow> js_number" where
  "parseInt string radix =
     (case strip_sign (trim_start string) of (sign, S) \<Rightarrow>
        let R = ToInt32 radix;
            stripPrefix = (R = 0 \<or> R = 16);
            R = (if R = 0 then 10 else R)
        in if R < 2 \<or> 36 < R then NaN
           else
             let hex = (stripPrefix \<and> (take 2 S = lit ''0x'' \<or> take 2 S = lit ''0X''));
                 S' = (if hex then drop 2 S else S);
                 R' = (if hex then 16 else nat R);
                 Z = takeWhile (\<lambda>c. digit_value c < R') S'
             in if Z = [] then NaN
                else to_number sign (foldl (\<lambda>a c. a * R' + digit_value c) 0 Z))"

text \<open>
  \<^verbatim>\<open>v || d\<close> on a value that is a string or \<^verbatim>\<open>undefined\<close>: the falsy values are
  \<^verbatim>\<open>undefined\<close> and the empty string.
\<close>

definition or_default :: "js_string option \<Rightarrow> js_string \<Rightarrow> js_string" where
  "or_default v d = (case v of None \<Rightarrow> d | Some x \<Rightarrow> if x = [] then d else x)"

record Configuration =
  port :: js_number
  dbConnectionString :: js_string

definition configuration :: "(string \<rightharpoonup> js_string) \<Rightarrow> Configuration" where
  "configuration env =
     \<lparr>port = parseInt (or_default (env ''PORT'') (lit ''3000'')) 10,
      dbConnectionString = or_default (env ''DB_CONNECTION_STRING'') (lit '''')\<rparr>"

section \<open>Sample data\<close>

text \<open>
  The items of the spec's scenario, and collections built from the empty one through
  the service alone.
\<close>

definition widget :: "real ItemDTO" where
  "widget = \<lparr>dto_id = 1, dto_name = ''Widget'', dto_price = 9.99\<rparr>"

definition widget_repriced :: "real ItemDTO" where
  "widget_repriced = \<lparr>dto_id = 1, dto_name = ''Widget'', dto_price = 7.49\<rparr>"

definition gadget :: "real ItemDTO" where
  "gadget = \<lparr>dto_id = 2, dto_name = ''Gadget'', dto_price = 20\<rparr>"

definition empty_store :: "bool \<Rightarrow> real collection" where
  "empty_store u = \<lparr>docs = [], unique_id = u\<rparr>"

definition widget_store :: "bool \<Rightarrow> real collection" where
  "widget_store u = snd (ItemService_create Item widget (empty_store u))"

definition two_item_store :: "real collection" where
  "two_item_store = snd (ItemService_create Item gadget (widget_store True))"

definition duplicate_store :: "real collection" where
  "duplicate_store = snd (ItemService_create Item widget_repriced (widget_store False))"

definition env_numeric_prefix :: "string \<rightharpoonup> js_string" where
  "env_numeric_prefix = [''PORT'' \<mapsto> lit ''80abc'']"

definition env_sample :: "string \<rightharpoonup> js_string" where
  "env_sample =
     [''PORT'' \<mapsto> lit ''8080'', ''DB_CONNECTION_STRING'' \<mapsto> lit ''mongodb://db/items'']"

definition env_not_a_number :: "string \<rightharpoonup> js_string" where
  "env_not_a_number = [''PORT'' \<mapsto> lit ''abc'', ''DB_CONNECTION_STRING'' \<mapsto> []]"

section \<open>Facts about the collection\<close>

lemma find_id_None: "List.find (\<lambda>d. doc_id d = i) ds = None \<longleftrightarrow> \<not> has_id i ds"
  by (auto simp: has_id_def find_None_iff)

lemma find_id_Some:
  "List.find (\<lambda>d. doc_id d = i) ds = Some d \<Longrightarrow> d \<in> set ds \<and> doc_id d = i"
  by (auto simp: find_Some_iff)

lemma update_first_absent: "\<not> has_id i ds \<Longrightarrow> update_first i n p ds = (None, ds)"
  by (induction ds) (auto simp: has_id_def)

lemma update_first_present:
  "has_id i ds \<Longrightarrow>
   \<exists>k < length ds. doc_id (ds ! k) = i \<and> (\<forall>j < k. doc_id (ds ! j) \<noteq> i) \<and>
     update_first i n p ds =
       (Some ((ds ! k)\<lparr>doc_name := n, doc_price := p\<rparr>),
        ds[k := (ds ! k)\<lparr>doc_name := n, doc_price := p\<rparr>])"
proof (induction ds)
  case Nil
  then show ?case by (simp add: has_id_def)
next
  case (Cons d ds)
  show ?case
  proof (cases "doc_id d = i")
    case True
    then have "doc_id ((d # ds) ! 0) = i \<and> (\<forall>j < 0. doc_id ((d # ds) ! j) \<noteq> i) \<and>
      update_first i n p (d # ds) =
        (Some (((d # ds) ! 0)\<lparr>doc_name := n, doc_price := p\<rparr>),
         (d # ds)[0 := ((d # ds) ! 0)\<lparr>doc_name := n, doc_price := p\<rparr>])"
      by simp
    then show ?thesis by blast
  next
    case False
    with Cons.prems have "has_id i ds" by (simp add: has_id_def)
    then obtain k where k: "k < length ds" "doc_id (ds ! k) = i"
      "\<forall>j < k. doc_id (ds ! j) \<noteq> i"
      "update_first i n p ds =
        (Some ((ds ! k)\<lparr>doc_name := n, doc_price := p\<rparr>),
         ds[k := (ds ! k)\<lparr>doc_name := n, doc_price := p\<rparr>])"
      using Cons.IH by blast
    have "\<forall>j < Suc k. doc_id ((d # ds) ! j) \<noteq> i"
      using False k(3) by (auto simp: less_Suc_eq_0_disj)
    with False k have "Suc k < length (d # ds) \<and> doc_id ((d # ds) ! Suc k) = i \<and>
      (\<forall>j < Suc k. doc_id ((d # ds) ! j) \<noteq> i) \<and>
      update_first i n p (d # ds) =
        (Some (((d # ds) ! Suc k)\<lparr>doc_name := n, doc_price := p\<rparr>),
         (d # ds)[Suc k := ((d # ds) ! Suc k)\<lparr>doc_name := n, doc_price := p\<rparr>])"
      by simp
    then show ?thesis by blast
  qed
qed

lemma delete_first_absent: "\<not> has_id i ds \<Longrightarrow> delete_first i ds = (None, ds)"
  by (induction ds) (auto simp: has_id_def)

lemma delete_first_present:
  "has_id i ds \<Longrightarrow>
   \<exists>k < length ds. doc_id (ds ! k) = i \<and> (\<forall>j < k. doc_id (ds ! j) \<noteq> i) \<and>
     delete_first i ds = (Some (ds ! k), take k ds @ drop (Suc k) ds)"
proof (induction ds)
  case Nil
  then show ?case by (simp add: has_id_def)
next
  case (Cons d ds)
  show ?case
  proof (cases "doc_id d = i")
    case True
    then have "doc_id ((d # ds) ! 0) = i \<and> (\<forall>j < 0. doc_id ((d # ds) ! j) \<noteq> i) \<and>
      delete_first i (d # ds) = (Some ((d # ds) ! 0), take 0 (d # ds) @ drop (Suc 0) (d # ds))"
      by simp
    then show ?thesis by blast
  next
    case False
    with Cons.prems have "has_id i ds" by (simp add: has_id_def)
    then obtain k where k: "k < length ds" "doc_id (ds ! k) = i"
      "\<forall>j < k. doc_id (ds ! j) \<noteq> i"
      "delete_first i ds = (Some (ds ! k), take k ds @ drop (Suc k) ds)"
      using Cons.IH by blast
    have "\<forall>j < Suc k. doc_id ((d # ds) ! j) \<noteq> i"
      using False k(3) by (auto simp: less_Suc_eq_0_disj)
    with False k have "Suc k < length (d # ds) \<and> doc_id ((d # ds) ! Suc k) = i \<and>
      (\<forall>j < Suc k. doc_id ((d # ds) ! j) \<noteq> i) \<and>
      delete_first i (d # ds) =
        (Some ((d # ds) ! Suc k), take (Suc k) (d # ds) @ drop (Suc (Suc k)) (d # ds))"
      by simp
    then show ?thesis by blast
  qed
qed

section \<open>The service on the collection\<close>

lemma has_id_iff: "has_id i ds \<longleftrightarrow> (\<exists>d\<in>set ds. doc_id d = i)"
  by (auto simp: has_id_def)

lemma find_id_append_new:
  "\<not> has_id (doc_id d) ds \<Longrightarrow> List.find (\<lambda>x. doc_id x = doc_id d) (ds @ [d]) = Some d"
  by (induction ds) (auto simp: has_id_def)

lemma get_Item:
  "ItemService_get Item i s =
     (case List.find (\<lambda>d. doc_id d = i) (docs s) of
        None \<Rightarrow> (Inl ItemNotFoundError, s)
      | Some d \<Rightarrow> (Inr (toDTO d), s))"
  by (simp add: ItemService_get_def Item_def Item_findOne_def split: option.splits)

lemma create_Item:
  "ItemService_create Item dto s =
     (if unique_id s \<and> has_id (dto_id dto) (docs s) then (Inl (StoreFailure DuplicateKey), s)
      else (Inr dto, s\<lparr>docs := docs s @ [new_Item dto]\<rparr>))"
  by (simp add: ItemService_create_def Item_def Item_save_def new_Item_def toDTO_def Let_def)

lemma update_Item:
  "ItemService_update Item dto s =
     (case update_first (dto_id dto) (dto_name dto) (dto_price dto) (docs s) of
        (None, ds') \<Rightarrow> (Inl ItemNotFoundError, s\<lparr>docs := ds'\<rparr>)
      | (Some d, ds') \<Rightarrow> (Inr (toDTO d), s\<lparr>docs := ds'\<rparr>))"
  by (simp add: ItemService_update_def Item_def Item_findOneAndUpdate_def
      split: prod.splits option.splits)

lemma delete_Item:
  "ItemService_delete Item i s =
     (case delete_first i (docs s) of
        (None, ds') \<Rightarrow> (Inl ItemNotFoundError, s\<lparr>docs := ds'\<rparr>)
      | (Some d, ds') \<Rightarrow> (Inr (), s\<lparr>docs := ds'\<rparr>))"
  by (simp add: ItemService_delete_def Item_def Item_findOneAndDelete_def
      split: prod.splits option.splits)

lemma list_Item: "ItemService_list Item s = (Inr (map toDTO (docs s)), s)"
  by (simp add: ItemService_list_def Item_def Item_find_exec_def)

lemma update_Item_absent:
  "\<not> has_id (dto_id dto) (docs s) \<Longrightarrow> ItemService_update Item dto s = (Inl ItemNotFoundError, s)"
  by (simp add: update_Item update_first_absent)

lemma update_Item_present:
  assumes "has_id (dto_id dto) (docs s)"
  shows "\<exists>k < length (docs s). doc_id (docs s ! k) = dto_id dto \<and>
     (\<forall>j < k. doc_id (docs s ! j) \<noteq> dto_id dto) \<and>
     ItemService_update Item dto s =
       (Inr (toDTO ((docs s ! k)\<lparr>doc_name := dto_name dto, doc_price := dto_price dto\<rparr>)),
        s\<lparr>docs := (docs s)[k := (docs s ! k)\<lparr>doc_name := dto_name dto, doc_price := dto_price dto\<rparr>]\<rparr>)"
proof -
  obtain k where k: "k < length (docs s)" "doc_id (docs s ! k) = dto_id dto"
    "\<forall>j < k. doc_id (docs s ! j) \<noteq> dto_id dto"
    "update_first (dto_id dto) (dto_name dto) (dto_price dto) (docs s) =
       (Some ((docs s ! k)\<lparr>doc_name := dto_name dto, doc_price := dto_price dto\<rparr>),
        (docs s)[k := (docs s ! k)\<lparr>doc_name := dto_name dto, doc_price := dto_price dto\<rparr>])"
    using update_first_present [OF assms] by blast
  from k(4) have "ItemService_update Item dto s =
       (Inr (toDTO ((docs s ! k)\<lparr>doc_name := dto_name dto, doc_price := dto_price dto\<rparr>)),
        s\<lparr>docs := (docs s)[k := (docs s ! k)\<lparr>doc_name := dto_name dto, doc_price := dto_price dto\<rparr>]\<rparr>)"
    by (simp add: update_Item)
  with k(1,2,3) show ?thesis by blast
qed

lemma delete_Item_absent:
  "\<not> has_id i (docs s) \<Longrightarrow> ItemService_delete Item i s = (Inl ItemNotFoundError, s)"
  by (simp add: delete_Item delete_first_absent)

lemma delete_Item_present:
  assumes "has_id i (docs s)"
  shows "\<exists>k < length (docs s). doc_id (docs s ! k) = i \<and>
     (\<forall>j < k. doc_id (docs s ! j) \<noteq> i) \<and>
     ItemService_delete Item i s = (Inr (), s\<lparr>docs := take k (docs s) @ drop (Suc k) (docs s)\<rparr>)"
proof -
  obtain k where k: "k < length (docs s)" "doc_id (docs s ! k) = i"
    "\<forall>j < k. doc_id (docs s ! j) \<noteq> i"
    "delete_first i (docs s) = (Some (docs s ! k), take k (docs s) @ drop (Suc k) (docs s))"
    using delete_first_present [OF assms] by blast
  from k(4) have "ItemService_delete Item i s =
      (Inr (), s\<lparr>docs := take k (docs s) @ drop (Suc k) (docs s)\<rparr>)"
    by (simp add: delete_Item)
  with k(1,2,3) show ?thesis by blast
qed

lemma has_id_filter: "has_id i ds \<longleftrightarrow> filter (\<lambda>d. doc_id d = i) ds \<noteq> []"
  by (auto simp: has_id_def filter_empty_conv)

lemma has_id_delete_first:
  "has_id i (snd (delete_first i ds)) \<longleftrightarrow> 2 \<le> length (filter (\<lambda>d. doc_id d = i) ds)"
proof (induction ds)
  case Nil
  then show ?case by (simp add: has_id_def)
next
  case (Cons d ds)
  show ?case
  proof (cases "doc_id d = i")
    case True
    have "has_id i ds \<longleftrightarrow> 1 \<le> length (filter (\<lambda>d. doc_id d = i) ds)"
      by (cases "filter (\<lambda>d. doc_id d = i) ds") (simp_all add: has_id_filter)
    with True show ?thesis by simp
  next
    case False
    have "has_id i (d # snd (delete_first i ds)) \<longleftrightarrow> has_id i (snd (delete_first i ds))"
      using False by (simp add: has_id_def)
    with False Cons.IH show ?thesis by (simp add: split_beta)
  qed
qed

lemma distinct_ids_filter:
  "distinct (map doc_id (ds :: 'p DocumentItem list))
     \<Longrightarrow> length (filter (\<lambda>d. doc_id d = i) ds) \<le> 1"
proof (induction ds)
  case Nil
  then show ?case by simp
next
  case (Cons d ds)
  show ?case
  proof (cases "doc_id d = i")
    case True
    with Cons.prems have "\<not> has_id i ds" by (simp add: has_id_def)
    then have "filter (\<lambda>d. doc_id d = i) ds = []" by (simp add: has_id_filter)
    with True show ?thesis by simp
  next
    case False
    with Cons show ?thesis by simp
  qed
qed

lemma delete_Item_docs:
  "docs (snd (ItemService_delete Item i s)) = snd (delete_first i (docs s))"
  by (simp add: delete_Item split: prod.splits option.splits)

lemma get_after_delete:
  "fst (ItemService_get Item i (snd (ItemService_delete Item i s))) = Inl ItemNotFoundError
     \<longleftrightarrow> length (filter (\<lambda>d. doc_id d = i) (docs s)) \<le> 1"
proof -
  have "fst (ItemService_get Item i (snd (ItemService_delete Item i s))) = Inl ItemNotFoundError
     \<longleftrightarrow> \<not> has_id i (snd (delete_first i (docs s)))"
    by (simp add: get_Item delete_Item_docs find_id_None [symmetric] split: option.splits)
  then show ?thesis by (simp add: has_id_delete_first not_le less_Suc_eq_le numeral_2_eq_2)
qed

lemma widget_store_eq: "widget_store u = \<lparr>docs = [new_Item widget], unique_id = u\<rparr>"
  by (simp add: widget_store_def empty_store_def create_Item has_id_def)

lemma two_item_store_eq:
  "two_item_store = \<lparr>docs = [new_Item widget, new_Item gadget], unique_id = True\<rparr>"
  by (simp add: two_item_store_def widget_store_eq create_Item has_id_def
      new_Item_def widget_def gadget_def)

lemma duplicate_store_eq:
  "duplicate_store = \<lparr>docs = [new_Item widget, new_Item widget_repriced], unique_id = False\<rparr>"
  by (simp add: duplicate_store_def widget_store_eq create_Item)

lemmas sample_simps = new_Item_def toDTO_def widget_def widget_repriced_def gadget_def

section \<open>The service on any store\<close>

lemma list_outcome:
  "snd (ItemService_list M s) = snd (find_exec M s) \<and>
   (\<forall>e. fst (find_exec M s) = Inl e \<longrightarrow> fst (ItemService_list M s) = Inl (StoreFailure e)) \<and>
   (\<forall>items. fst (find_exec M s) = Inr items \<longrightarrow> fst (ItemService_list M s) = Inr (map toDTO items)) \<and>
   (\<forall>err. fst (ItemService_list M s) = Inl err \<longrightarrow>
      (\<exists>e. err = StoreFailure e \<and> fst (find_exec M s) = Inl e))"
  by (cases "find_exec M s") (auto simp: ItemService_list_def split: sum.splits)

lemma get_outcome:
  "snd (ItemService_get M i s) = snd (findOne M i s) \<and>
   (\<forall>e. fst (findOne M i s) = Inl e \<longrightarrow> fst (ItemService_get M i s) = Inl (StoreFailure e)) \<and>
   (\<forall>err. fst (ItemService_get M i s) = Inl err \<longrightarrow>
      err = ItemNotFoundError \<and> fst (findOne M i s) = Inr None \<or>
      (\<exists>e. err = StoreFailure e \<and> fst (findOne M i s) = Inl e))"
  by (cases "findOne M i s") (auto simp: ItemService_get_def split: sum.splits option.splits)

lemma create_outcome:
  "snd (ItemService_create M dto s) = snd (save M (new_Item dto) s) \<and>
   (\<forall>e. fst (save M (new_Item dto) s) = Inl e \<longrightarrow>
      fst (ItemService_create M dto s) = Inl (StoreFailure e)) \<and>
   (\<forall>d. fst (save M (new_Item dto) s) = Inr d \<longrightarrow>
      fst (ItemService_create M dto s) = Inr (toDTO d)) \<and>
   (\<forall>err. fst (ItemService_create M dto s) = Inl err \<longrightarrow>
      (\<exists>e. err = StoreFailure e \<and> fst (save M (new_Item dto) s) = Inl e))"
  by (cases "save M (new_Item dto) s")
    (auto simp: ItemService_create_def Let_def split: sum.splits)

lemma update_outcome:
  "snd (ItemService_update M dto s)
     = snd (findOneAndUpdate M (dto_id dto) (dto_name dto) (dto_price dto) s) \<and>
   (\<forall>e. fst (findOneAndUpdate M (dto_id dto) (dto_name dto) (dto_price dto) s) = Inl e \<longrightarrow>
      fst (ItemService_update M dto s) = Inl (StoreFailure e)) \<and>
   (\<forall>err. fst (ItemService_update M dto s) = Inl err \<longrightarrow>
      err = ItemNotFoundError \<and>
        fst (findOneAndUpdate M (dto_id dto) (dto_name dto) (dto_price dto) s) = Inr None \<or>
      (\<exists>e. err = StoreFailure e \<and>
        fst (findOneAndUpdate M (dto_id dto) (dto_name dto) (dto_price dto) s) = Inl e))"
  by (cases "findOneAndUpdate M (dto_id dto) (dto_name dto) (dto_price dto) s")
    (auto simp: ItemService_update_def split: sum.splits option.splits)

lemma delete_outcome:
  "snd (ItemService_delete M i s) = snd (findOneAndDelete M i s) \<and>
   (\<forall>e. fst (findOneAndDelete M i s) = Inl e \<longrightarrow>
      fst (ItemService_delete M i s) = Inl (StoreFailure e)) \<and>
   (\<forall>err. fst (ItemService_delete M i s) = Inl err \<longrightarrow>
      err = ItemNotFoundError \<and> fst (findOneAndDelete M i s) = Inr None \<or>
      (\<exists>e. err = StoreFailure e \<and> fst (findOneAndDelete M i s) = Inl e))"
  by (cases "findOneAndDelete M i s")
    (auto simp: ItemService_delete_def split: sum.splits option.splits)

section \<open>Facts about the configuration\<close>

lemmas parse_simps = parseInt_def trim_start_def is_white_space_def digit_value_def
  or_default_def lit_def ToInt32_def to_number_def round_to_double_def

lemma parseInt_3000: "parseInt (lit ''3000'') 10 = Num 3000"
  by (simp add: parse_simps)

lemma digit_value_decimal: "digit_value c < 10 \<longleftrightarrow> 48 \<le> unat c \<and> unat c \<le> 57"
  by (auto simp: digit_value_def Let_def)

lemma to_number_not_NaN: "to_number sign n \<noteq> NaN"
  by (simp add: to_number_def split: option.splits)

lemma parseInt_10_NaN:
  "parseInt v 10 = NaN \<longleftrightarrow>
     takeWhile (\<lambda>c. digit_value c < 10) (snd (strip_sign (trim_start v))) = []"
  by (simp add: parseInt_def ToInt32_def Let_def to_number_not_NaN split: prod.splits)

lemma digit_not_white_space: "48 \<le> unat d \<Longrightarrow> unat d \<le> 57 \<Longrightarrow> \<not> is_white_space d"
  by (auto simp: is_white_space_def Let_def)

lemma sign_not_white_space: "\<not> is_white_space 0x2B" "\<not> is_white_space 0x2D"
  by (simp_all add: is_white_space_def)

lemma strip_sign_digit: "48 \<le> unat d \<Longrightarrow> unat d \<le> 57 \<Longrightarrow> strip_sign (d # rest) = (1, d # rest)"
  by auto

lemma strip_sign_split:
  "\<exists>sg. (sg = [] \<or> sg = lit ''+'' \<or> sg = lit ''-'') \<and> x = sg @ snd (strip_sign x)"
  by (cases x) (auto simp: lit_def)

lemma trim_start_split:
  "v = takeWhile is_white_space v @ trim_start v"
  by (simp add: trim_start_def)

lemma trim_start_prefix:
  "\<forall>c\<in>set ws. is_white_space c \<Longrightarrow> \<not> is_white_space x \<Longrightarrow> trim_start (ws @ x # r) = x # r"
  by (simp add: trim_start_def dropWhile_append3)

lemma parseInt_10_number:
  assumes "\<forall>c\<in>set ws. is_white_space c" "sg = [] \<or> sg = lit ''+'' \<or> sg = lit ''-''"
    "48 \<le> unat d" "unat d \<le> 57"
  shows "parseInt (ws @ sg @ d # rest) 10 \<noteq> NaN"
proof -
  have "snd (strip_sign (trim_start (ws @ sg @ d # rest))) = d # rest"
    using assms(2)
  proof (elim disjE)
    assume "sg = []"
    then show ?thesis
      using trim_start_prefix [OF assms(1) digit_not_white_space [OF assms(3,4)], of rest]
        strip_sign_digit [OF assms(3,4), of rest] by simp
  next
    assume "sg = lit ''+''"
    then show ?thesis
      using trim_start_prefix [OF assms(1) sign_not_white_space(1), of "d # rest"]
      by (simp add: lit_def)
  next
    assume "sg = lit ''-''"
    then show ?thesis
      using trim_start_prefix [OF assms(1) sign_not_white_space(2), of "d # rest"]
      by (simp add: lit_def)
  qed
  then show ?thesis
    using assms(3,4) by (simp add: parseInt_10_NaN digit_value_decimal)
qed

lemma parseInt_10_number_split:
  assumes "parseInt v 10 \<noteq> NaN"
  shows "\<exists>ws sg d rest. v = ws @ sg @ d # rest \<and> (\<forall>c\<in>set ws. is_white_space c) \<and>
     (sg = [] \<or> sg = lit ''+'' \<or> sg = lit ''-'') \<and> 48 \<le> unat d \<and> unat d \<le> 57"
proof -
  from assms obtain d rest where S: "snd (strip_sign (trim_start v)) = d # rest"
    and d: "digit_value d < 10"
    by (cases "snd (strip_sign (trim_start v))") (auto simp: parseInt_10_NaN split: if_splits)
  obtain sg where sg: "sg = [] \<or> sg = lit ''+'' \<or> sg = lit ''-''"
    "trim_start v = sg @ snd (strip_sign (trim_start v))"
    using strip_sign_split [of "trim_start v"] by blast
  have "v = takeWhile is_white_space v @ sg @ d # rest"
    using trim_start_split [of v] sg(2) S by simp
  moreover have "\<forall>c\<in>set (takeWhile is_white_space v). is_white_space c"
    by (auto dest: set_takeWhileD)
  ultimately show ?thesis
    using sg(1) d unfolding digit_value_decimal by blast
qed

text \<open>Values of the model where the conversion to a Number shows.\<close>

lemma bit_length_power2: "bit_length (2 ^ k) = Suc k"
proof (induction k)
  case 0
  show ?case by (simp add: bit_length.simps)
next
  case (Suc k)
  have "bit_length (2 ^ Suc k) = Suc (bit_length (2 ^ Suc k div 2))"
    by (subst bit_length.simps) simp
  with Suc show ?case by simp
qed

lemma to_number_overflow:
  "to_number 1 (2 ^ 1024) = Infinity \<and> to_number (- 1) (2 ^ 1024) = NegInfinity"
proof -
  have "bit_length (2 ^ 1024) = 1025"
    using bit_length_power2 [of 1024] by simp
  then show ?thesis by (simp add: to_number_def round_to_double_def)
qed

lemma parseInt_rounds_to_even:
  "parseInt (lit ''9007199254740993'') 10 = Num 9007199254740992"
  by (simp add: parse_simps bit_length.simps)

lemma parseInt_negative_zero: "parseInt (lit ''-0'') 10 = NegZero"
  by (simp add: parse_simps)

lemma parseInt_skips_em_space: "parseInt (0x2003 # lit ''80'') 10 = Num 80"
  by (simp add: parse_simps)

section \<open>The claims\<close>

text \<open>
  Claim C1. On the collection, \<^verbatim>\<open>get(id)\<close> fails with \<^verbatim>\<open>ItemNotFoundError\<close> if and only if
  no stored document has that id; when one has, \<^verbatim>\<open>get(id)\<close> returns \<open>toDTO\<close> of a
  stored document with that id and leaves the collection as it was.
\<close>

theorem get_not_found_iff:
  "(fst (ItemService_get Item i s) = Inl ItemNotFoundError
      \<longleftrightarrow> \<not> (\<exists>d\<in>set (docs s). doc_id d = i)) \<and>
   ((\<exists>d\<in>set (docs s). doc_id d = i) \<longrightarrow>
      (\<exists>d\<in>set (docs s). doc_id d = i \<and> ItemService_get Item i s = (Inr (toDTO d), s)))"
proof (cases "List.find (\<lambda>d. doc_id d = i) (docs s)")
  case None
  then have "\<not> has_id i (docs s)" by (simp add: find_id_None)
  with None show ?thesis by (simp add: get_Item has_id_iff)
next
  case (Some d)
  then have "d \<in> set (docs s) \<and> doc_id d = i" by (rule find_id_Some)
  with Some show ?thesis by (auto simp: get_Item)
qed

text \<open>The theorem at the sample data.\<close>

theorem get_not_found_iff_witness:
  "fst (ItemService_get Item 2 two_item_store) = Inr gadget \<and>
   fst (ItemService_get Item 5 two_item_store) = Inl ItemNotFoundError"
  using get_not_found_iff [of 2 two_item_store] get_not_found_iff [of 5 two_item_store]
  by (auto simp: two_item_store_eq sample_simps)

text \<open>
  Claim C2. When no stored document has the id of \<open>dto\<close>, \<^verbatim>\<open>create(dto)\<close> succeeds with
  \<open>dto\<close>, and \<^verbatim>\<open>get(dto.id)\<close> on the collection it leaves returns \<open>dto\<close>.
\<close>

theorem create_get_roundtrip:
  assumes "\<not> (\<exists>d\<in>set (docs s). doc_id d = dto_id dto)"
  shows "fst (ItemService_create Item dto s) = Inr dto \<and>
         fst (ItemService_get Item (dto_id dto) (snd (ItemService_create Item dto s))) = Inr dto"
proof -
  from assms have n: "\<not> has_id (doc_id (new_Item dto)) (docs s)"
    by (simp add: has_id_iff new_Item_def)
  then have c: "ItemService_create Item dto s = (Inr dto, s\<lparr>docs := docs s @ [new_Item dto]\<rparr>)"
    by (simp add: create_Item new_Item_def)
  have "List.find (\<lambda>x. doc_id x = dto_id dto) (docs s @ [new_Item dto]) = Some (new_Item dto)"
    using find_id_append_new [OF n] by (simp add: new_Item_def)
  then have "fst (ItemService_get Item (dto_id dto) (s\<lparr>docs := docs s @ [new_Item dto]\<rparr>)) = Inr dto"
    by (simp add: get_Item toDTO_def new_Item_def)
  with c show ?thesis by simp
qed

text \<open>The theorem at the sample data.\<close>

theorem create_get_roundtrip_witness:
  "\<not> (\<exists>d\<in>set (docs (widget_store True)). doc_id d = dto_id gadget) \<and>
   fst (ItemService_create Item gadget (widget_store True)) = Inr gadget \<and>
   fst (ItemService_get Item 2 (snd (ItemService_create Item gadget (widget_store True))))
     = Inr gadget"
  using create_get_roundtrip [of "widget_store True" gadget]
  by (simp add: widget_store_eq sample_simps)

text \<open>
  Claim C3. When a document with the id of \<open>dto\<close> is stored, \<^verbatim>\<open>update(dto)\<close> leaves the
  collection with one position \<open>k\<close> changed: the document there had the id of \<open>dto\<close>
  and keeps it, its name and price are those of \<open>dto\<close>, the collection has the same
  length, and every other position holds the document it held before.
\<close>

theorem update_frame:
  assumes "\<exists>d\<in>set (docs s). doc_id d = dto_id dto"
  shows "\<exists>k < length (docs s). doc_id (docs s ! k) = dto_id dto \<and>
     snd (ItemService_update Item dto s) =
       s\<lparr>docs := (docs s)[k := (docs s ! k)\<lparr>doc_name := dto_name dto, doc_price := dto_price dto\<rparr>]\<rparr> \<and>
     length (docs (snd (ItemService_update Item dto s))) = length (docs s) \<and>
     doc_id (docs (snd (ItemService_update Item dto s)) ! k) = doc_id (docs s ! k) \<and>
     doc_name (docs (snd (ItemService_update Item dto s)) ! k) = dto_name dto \<and>
     doc_price (docs (snd (ItemService_update Item dto s)) ! k) = dto_price dto \<and>
     (\<forall>j < length (docs s). j \<noteq> k \<longrightarrow>
        docs (snd (ItemService_update Item dto s)) ! j = docs s ! j)"
proof -
  from assms have "has_id (dto_id dto) (docs s)" by (simp add: has_id_iff)
  then obtain k where k: "k < length (docs s)" "doc_id (docs s ! k) = dto_id dto"
    "ItemService_update Item dto s =
       (Inr (toDTO ((docs s ! k)\<lparr>doc_name := dto_name dto, doc_price := dto_price dto\<rparr>)),
        s\<lparr>docs := (docs s)[k := (docs s ! k)\<lparr>doc_name := dto_name dto, doc_price := dto_price dto\<rparr>]\<rparr>)"
    using update_Item_present by blast
  from k(1) have "doc_id (docs s ! k) = dto_id dto \<and>
     snd (ItemService_update Item dto s) =
       s\<lparr>docs := (docs s)[k := (docs s ! k)\<lparr>doc_name := dto_name dto, doc_price := dto_price dto\<rparr>]\<rparr> \<and>
     length (docs (snd (ItemService_update Item dto s))) = length (docs s) \<and>
     doc_id (docs (snd (ItemService_update Item dto s)) ! k) = doc_id (docs s ! k) \<and>
     doc_name (docs (snd (ItemService_update Item dto s)) ! k) = dto_name dto \<and>
     doc_price (docs (snd (ItemService_update Item dto s)) ! k) = dto_price dto \<and>
     (\<forall>j < length (docs s). j \<noteq> k \<longrightarrow>
        docs (snd (ItemService_update Item dto s)) ! j = docs s ! j)"
    by (simp add: k(2,3))
  with k(1) show ?thesis by blast
qed

text \<open>The theorem at the sample data.\<close>

theorem update_frame_witness:
  "(\<exists>d\<in>set (docs two_item_store). doc_id d = dto_id widget_repriced) \<and>
   docs (snd (ItemService_update Item widget_repriced two_item_store))
     = [new_Item widget_repriced, new_Item gadget]"
  using update_frame [of two_item_store widget_repriced]
  by (auto simp: two_item_store_eq sample_simps less_Suc_eq)

text \<open>
  Claim C4. \<^verbatim>\<open>update(dto)\<close> fails with \<^verbatim>\<open>ItemNotFoundError\<close> if and only if no stored
  document has the id of \<open>dto\<close>, and the collection is then unchanged; when one has, the
  result is \<open>toDTO\<close> of the document as it stands in the collection after the update.
\<close>

theorem update_not_found_iff:
  "(fst (ItemService_update Item dto s) = Inl ItemNotFoundError
      \<longleftrightarrow> \<not> (\<exists>d\<in>set (docs s). doc_id d = dto_id dto)) \<and>
   (\<not> (\<exists>d\<in>set (docs s). doc_id d = dto_id dto) \<longrightarrow> snd (ItemService_update Item dto s) = s) \<and>
   ((\<exists>d\<in>set (docs s). doc_id d = dto_id dto) \<longrightarrow>
      (\<exists>k < length (docs s). doc_id (docs s ! k) = dto_id dto \<and>
         docs (snd (ItemService_update Item dto s)) ! k =
           (docs s ! k)\<lparr>doc_name := dto_name dto, doc_price := dto_price dto\<rparr> \<and>
         fst (ItemService_update Item dto s) =
           Inr (toDTO (docs (snd (ItemService_update Item dto s)) ! k))))"
proof (cases "has_id (dto_id dto) (docs s)")
  case False
  then show ?thesis by (simp add: update_Item_absent has_id_iff)
next
  case True
  then obtain k where k: "k < length (docs s)" "doc_id (docs s ! k) = dto_id dto"
    "ItemService_update Item dto s =
       (Inr (toDTO ((docs s ! k)\<lparr>doc_name := dto_name dto, doc_price := dto_price dto\<rparr>)),
        s\<lparr>docs := (docs s)[k := (docs s ! k)\<lparr>doc_name := dto_name dto, doc_price := dto_price dto\<rparr>]\<rparr>)"
    using update_Item_present by blast
  from k(1) have "doc_id (docs s ! k) = dto_id dto \<and>
         docs (snd (ItemService_update Item dto s)) ! k =
           (docs s ! k)\<lparr>doc_name := dto_name dto, doc_price := dto_price dto\<rparr> \<and>
         fst (ItemService_update Item dto s) =
           Inr (toDTO (docs (snd (ItemService_update Item dto s)) ! k))"
    by (simp add: k(2,3))
  with k(1) have "\<exists>k < length (docs s). doc_id (docs s ! k) = dto_id dto \<and>
         docs (snd (ItemService_update Item dto s)) ! k =
           (docs s ! k)\<lparr>doc_name := dto_name dto, doc_price := dto_price dto\<rparr> \<and>
         fst (ItemService_update Item dto s) =
           Inr (toDTO (docs (snd (ItemService_update Item dto s)) ! k))"
    by blast
  moreover have "fst (ItemService_update Item dto s) \<noteq> Inl ItemNotFoundError"
    by (simp add: k(3))
  moreover from True have "\<exists>d\<in>set (docs s). doc_id d = dto_id dto"
    by (simp add: has_id_iff)
  ultimately show ?thesis by simp
qed

text \<open>The theorem at the sample data.\<close>

theorem update_not_found_iff_witness:
  "fst (ItemService_update Item widget_repriced two_item_store) = Inr widget_repriced \<and>
   ItemService_update Item gadget (widget_store True) = (Inl ItemNotFoundError, widget_store True)"
  using update_not_found_iff [of widget_repriced two_item_store]
    update_not_found_iff [of gadget "widget_store True"]
  by (auto simp: two_item_store_eq widget_store_eq sample_simps less_Suc_eq prod_eq_iff)

text \<open>
  Claim C5. \<^verbatim>\<open>delete(id)\<close> fails with \<^verbatim>\<open>ItemNotFoundError\<close> if and only if no stored
  document has that id, and the collection is then unchanged. In a collection whose
  ids are distinct, as the data model requires of the store, \<^verbatim>\<open>delete(id)\<close> of a stored
  id removes exactly the document with that id: one position \<open>k\<close> holding it is taken
  out, no document with the id remains, and a following \<^verbatim>\<open>get(id)\<close> fails with
  \<^verbatim>\<open>ItemNotFoundError\<close>.
\<close>

theorem delete_then_get_not_found:
  "(fst (ItemService_delete Item i s) = Inl ItemNotFoundError
      \<longleftrightarrow> \<not> (\<exists>d\<in>set (docs s). doc_id d = i)) \<and>
   (\<not> (\<exists>d\<in>set (docs s). doc_id d = i) \<longrightarrow> snd (ItemService_delete Item i s) = s) \<and>
   (distinct (map doc_id (docs s)) \<and> (\<exists>d\<in>set (docs s). doc_id d = i) \<longrightarrow>
      (\<exists>k < length (docs s). doc_id (docs s ! k) = i \<and>
         snd (ItemService_delete Item i s) = s\<lparr>docs := take k (docs s) @ drop (Suc k) (docs s)\<rparr>) \<and>
      length (docs (snd (ItemService_delete Item i s))) + 1 = length (docs s) \<and>
      \<not> (\<exists>d\<in>set (docs (snd (ItemService_delete Item i s))). doc_id d = i) \<and>
      fst (ItemService_get Item i (snd (ItemService_delete Item i s))) = Inl ItemNotFoundError)"
proof (cases "has_id i (docs s)")
  case False
  then show ?thesis by (simp add: delete_Item_absent has_id_iff)
next
  case True
  then obtain k where k: "k < length (docs s)" "doc_id (docs s ! k) = i"
    "ItemService_delete Item i s = (Inr (), s\<lparr>docs := take k (docs s) @ drop (Suc k) (docs s)\<rparr>)"
    using delete_Item_present by blast
  have a: "fst (ItemService_delete Item i s) \<noteq> Inl ItemNotFoundError"
    by (simp add: k(3))
  from k have b: "\<exists>k < length (docs s). doc_id (docs s ! k) = i \<and>
      snd (ItemService_delete Item i s) = s\<lparr>docs := take k (docs s) @ drop (Suc k) (docs s)\<rparr>"
    by auto
  from k(1) have c: "length (docs (snd (ItemService_delete Item i s))) + 1 = length (docs s)"
    by (simp add: k(3))
  have d: "distinct (map doc_id (docs s)) \<longrightarrow>
      fst (ItemService_get Item i (snd (ItemService_delete Item i s))) = Inl ItemNotFoundError"
    unfolding get_after_delete using distinct_ids_filter [of "docs s" i] by simp
  have e: "distinct (map doc_id (docs s)) \<longrightarrow>
      \<not> (\<exists>d\<in>set (docs (snd (ItemService_delete Item i s))). doc_id d = i)"
  proof
    assume "distinct (map doc_id (docs s))"
    then have "length (filter (\<lambda>d. doc_id d = i) (docs s)) \<le> 1"
      by (rule distinct_ids_filter)
    then have "\<not> has_id i (snd (delete_first i (docs s)))"
      by (simp add: has_id_delete_first)
    then show "\<not> (\<exists>d\<in>set (docs (snd (ItemService_delete Item i s))). doc_id d = i)"
      by (simp add: delete_Item_docs has_id_iff)
  qed
  from True have "\<exists>d\<in>set (docs s). doc_id d = i" by (simp add: has_id_iff)
  with a b c d e show ?thesis by simp
qed

text \<open>The theorem at the sample data.\<close>

theorem delete_then_get_not_found_witness:
  "distinct (map doc_id (docs two_item_store)) \<and>
   (\<exists>d\<in>set (docs two_item_store). doc_id d = 1) \<and>
   docs (snd (ItemService_delete Item 1 two_item_store)) = [new_Item gadget] \<and>
   fst (ItemService_get Item 1 (snd (ItemService_delete Item 1 two_item_store)))
     = Inl ItemNotFoundError \<and>
   ItemService_delete Item 5 two_item_store = (Inl ItemNotFoundError, two_item_store)"
  using delete_then_get_not_found [of 1 two_item_store]
    delete_then_get_not_found [of 5 two_item_store]
  by (auto simp: two_item_store_eq sample_simps less_Suc_eq prod_eq_iff)

text \<open>
  Claim C6. On the collection, \<^verbatim>\<open>list()\<close> returns \<open>toDTO\<close> of every stored document, one
  for each, in store order, and the empty sequence on an empty collection. Over any
  store it never fails with \<^verbatim>\<open>ItemNotFoundError\<close>, and it projects whatever sequence the
  store returns.
\<close>

theorem list_all_items:
  "ItemService_list Item s = (Inr (map toDTO (docs s)), s) \<and>
   (docs s = [] \<longrightarrow> fst (ItemService_list Item s) = Inr []) \<and>
   fst (ItemService_list M t) \<noteq> Inl ItemNotFoundError \<and>
   (\<forall>items. fst (find_exec M t) = Inr items \<longrightarrow>
      fst (ItemService_list M t) = Inr (map toDTO items))"
proof -
  have "fst (ItemService_list M t) \<noteq> Inl ItemNotFoundError"
    using list_outcome [of M t] by auto
  moreover have "\<forall>items. fst (find_exec M t) = Inr items \<longrightarrow>
      fst (ItemService_list M t) = Inr (map toDTO items)"
    using list_outcome [of M t] by blast
  ultimately show ?thesis by (simp add: list_Item)
qed

text \<open>The theorem at the sample data.\<close>

theorem list_all_items_witness:
  "fst (ItemService_list Item two_item_store) = Inr [widget, gadget] \<and>
   fst (ItemService_list Item (empty_store True)) = Inr []"
  using list_all_items [of two_item_store Item two_item_store]
    list_all_items [of "empty_store True" Item "empty_store True"]
  by (simp add: two_item_store_eq empty_store_def sample_simps)

text \<open>
  Claim C7. When a document with the id is stored, \<^verbatim>\<open>delete(id)\<close> succeeds and its value
  is the one value of \<open>unit\<close>.
\<close>

theorem delete_returns_unit:
  "(\<exists>d\<in>set (docs s). doc_id d = i) \<Longrightarrow> fst (ItemService_delete Item i s) = Inr ()"
proof -
  assume "\<exists>d\<in>set (docs s). doc_id d = i"
  then have "has_id i (docs s)" by (simp add: has_id_iff)
  then obtain k where "ItemService_delete Item i s =
      (Inr (), s\<lparr>docs := take k (docs s) @ drop (Suc k) (docs s)\<rparr>)"
    using delete_Item_present by blast
  then show ?thesis by simp
qed

text \<open>The theorem at the sample data.\<close>

theorem delete_returns_unit_witness:
  "(\<exists>d\<in>set (docs two_item_store). doc_id d = 2) \<and>
   fst (ItemService_delete Item 2 two_item_store) = Inr ()"
  using delete_returns_unit [of two_item_store 2]
  by (simp add: two_item_store_eq sample_simps)

text \<open>
  Claim C8. Over any store, \<^verbatim>\<open>create(dto)\<close> never fails with \<^verbatim>\<open>ItemNotFoundError\<close>: its
  outcome is that of the one \<^verbatim>\<open>save\<close> of the new document, a rejection of which comes
  back as the store's failure. On a collection that does not enforce unique ids,
  creation succeeds whatever is stored; on one that does, a stored id is rejected with
  the store's \<open>DuplicateKey\<close> and the collection is unchanged.
\<close>

theorem create_no_duplicate_check:
  "fst (ItemService_create M dto t) \<noteq> Inl ItemNotFoundError \<and>
   snd (ItemService_create M dto t) = snd (save M (new_Item dto) t) \<and>
   (\<forall>e. fst (save M (new_Item dto) t) = Inl e \<longrightarrow>
      fst (ItemService_create M dto t) = Inl (StoreFailure e)) \<and>
   (\<forall>d. fst (save M (new_Item dto) t) = Inr d \<longrightarrow>
      fst (ItemService_create M dto t) = Inr (toDTO d)) \<and>
   (\<not> unique_id s \<longrightarrow>
      ItemService_create Item dto' s = (Inr dto', s\<lparr>docs := docs s @ [new_Item dto']\<rparr>)) \<and>
   (unique_id s \<and> (\<exists>d\<in>set (docs s). doc_id d = dto_id dto') \<longrightarrow>
      ItemService_create Item dto' s = (Inl (StoreFailure DuplicateKey), s))"
proof -
  have "fst (ItemService_create M dto t) \<noteq> Inl ItemNotFoundError"
    using create_outcome [of M dto t] by auto
  moreover have "snd (ItemService_create M dto t) = snd (save M (new_Item dto) t)"
    using create_outcome [of M dto t] by blast
  moreover have "\<forall>e. fst (save M (new_Item dto) t) = Inl e \<longrightarrow>
      fst (ItemService_create M dto t) = Inl (StoreFailure e)"
    using create_outcome [of M dto t] by blast
  moreover have "\<forall>d. fst (save M (new_Item dto) t) = Inr d \<longrightarrow>
      fst (ItemService_create M dto t) = Inr (toDTO d)"
    using create_outcome [of M dto t] by blast
  moreover have "\<not> unique_id s \<longrightarrow>
      ItemService_create Item dto' s = (Inr dto', s\<lparr>docs := docs s @ [new_Item dto']\<rparr>)"
    by (simp add: create_Item)
  moreover have "unique_id s \<and> (\<exists>d\<in>set (docs s). doc_id d = dto_id dto') \<longrightarrow>
      ItemService_create Item dto' s = (Inl (StoreFailure DuplicateKey), s)"
    by (simp add: create_Item has_id_iff)
  ultimately show ?thesis by blast
qed

text \<open>The theorem at the sample data.\<close>

theorem create_no_duplicate_check_witness:
  "ItemService_create Item widget_repriced (widget_store False)
     = (Inr widget_repriced, duplicate_store) \<and>
   ItemService_create Item widget_repriced (widget_store True)
     = (Inl (StoreFailure DuplicateKey), widget_store True)"
  using create_no_duplicate_check [of Item widget_repriced "widget_store False" "widget_store False" widget_repriced]
    create_no_duplicate_check [of Item widget_repriced "widget_store True" "widget_store True" widget_repriced]
  by (simp add: widget_store_eq duplicate_store_eq sample_simps)

text \<open>
  Claim C9. Over any store and for each of the five operations: the state left behind
  is the one the single store call left; a rejection of the store call is the failure
  of the operation, with the same error; and every failure of the operation is either
  that, or \<^verbatim>\<open>ItemNotFoundError\<close> after the store call returned \<^verbatim>\<open>null\<close>, which
  \<^verbatim>\<open>list\<close> and \<^verbatim>\<open>create\<close> never produce.
\<close>

theorem only_domain_error:
  "(snd (ItemService_list M s) = snd (find_exec M s) \<and>
    (\<forall>e. fst (find_exec M s) = Inl e \<longrightarrow> fst (ItemService_list M s) = Inl (StoreFailure e)) \<and>
    (\<forall>err. fst (ItemService_list M s) = Inl err \<longrightarrow>
       (\<exists>e. err = StoreFailure e \<and> fst (find_exec M s) = Inl e))) \<and>
   (snd (ItemService_get M i s) = snd (findOne M i s) \<and>
    (\<forall>e. fst (findOne M i s) = Inl e \<longrightarrow> fst (ItemService_get M i s) = Inl (StoreFailure e)) \<and>
    (\<forall>err. fst (ItemService_get M i s) = Inl err \<longrightarrow>
       err = ItemNotFoundError \<and> fst (findOne M i s) = Inr None \<or>
       (\<exists>e. err = StoreFailure e \<and> fst (findOne M i s) = Inl e))) \<and>
   (snd (ItemService_create M dto s) = snd (save M (new_Item dto) s) \<and>
    (\<forall>e. fst (save M (new_Item dto) s) = Inl e \<longrightarrow>
       fst (ItemService_create M dto s) = Inl (StoreFailure e)) \<and>
    (\<forall>err. fst (ItemService_create M dto s) = Inl err \<longrightarrow>
       (\<exists>e. err = StoreFailure e \<and> fst (save M (new_Item dto) s) = Inl e))) \<and>
   (snd (ItemService_update M dto s)
      = snd (findOneAndUpdate M (dto_id dto) (dto_name dto) (dto_price dto) s) \<and>
    (\<forall>e. fst (findOneAndUpdate M (dto_id dto) (dto_name dto) (dto_price dto) s) = Inl e \<longrightarrow>
       fst (ItemService_update M dto s) = Inl (StoreFailure e)) \<and>
    (\<forall>err. fst (ItemService_update M dto s) = Inl err \<longrightarrow>
       err = ItemNotFoundError \<and>
         fst (findOneAndUpdate M (dto_id dto) (dto_name dto) (dto_price dto) s) = Inr None \<or>
       (\<exists>e. err = StoreFailure e \<and>
         fst (findOneAndUpdate M (dto_id dto) (dto_name dto) (dto_price dto) s) = Inl e))) \<and>
   (snd (ItemService_delete M i s) = snd (findOneAndDelete M i s) \<and>
    (\<forall>e. fst (findOneAndDelete M i s) = Inl e \<longrightarrow>
       fst (ItemService_delete M i s) = Inl (StoreFailure e)) \<and>
    (\<forall>err. fst (ItemService_delete M i s) = Inl err \<longrightarrow>
       err = ItemNotFoundError \<and> fst (findOneAndDelete M i s) = Inr None \<or>
       (\<exists>e. err = StoreFailure e \<and> fst (findOneAndDelete M i s) = Inl e)))"
proof (intro conjI)
  show "snd (ItemService_list M s) = snd (find_exec M s)"
    using list_outcome [of M s] by blast
  show "\<forall>e. fst (find_exec M s) = Inl e \<longrightarrow> fst (ItemService_list M s) = Inl (StoreFailure e)"
    using list_outcome [of M s] by blast
  show "\<forall>err. fst (ItemService_list M s) = Inl err \<longrightarrow>
       (\<exists>e. err = StoreFailure e \<and> fst (find_exec M s) = Inl e)"
    using list_outcome [of M s] by blast
  show "snd (ItemService_get M i s) = snd (findOne M i s)"
    using get_outcome [of M i s] by blast
  show "\<forall>e. fst (findOne M i s) = Inl e \<longrightarrow> fst (ItemService_get M i s) = Inl (StoreFailure e)"
    using get_outcome [of M i s] by blast
  show "\<forall>err. fst (ItemService_get M i s) = Inl err \<longrightarrow>
       err = ItemNotFoundError \<and> fst (findOne M i s) = Inr None \<or>
       (\<exists>e. err = StoreFailure e \<and> fst (findOne M i s) = Inl e)"
    using get_outcome [of M i s] by blast
  show "snd (ItemService_create M dto s) = snd (save M (new_Item dto) s)"
    using create_outcome [of M dto s] by blast
  show "\<forall>e. fst (save M (new_Item dto) s) = Inl e \<longrightarrow>
       fst (ItemService_create M dto s) = Inl (StoreFailure e)"
    using create_outcome [of M dto s] by blast
  show "\<forall>err. fst (ItemService_create M dto s) = Inl err \<longrightarrow>
       (\<exists>e. err = StoreFailure e \<and> fst (save M (new_Item dto) s) = Inl e)"
    using create_outcome [of M dto s] by blast
  show "snd (ItemService_update M dto s)
      = snd (findOneAndUpdate M (dto_id dto) (dto_name dto) (dto_price dto) s)"
    using update_outcome [of M dto s] by blast
  show "\<forall>e. fst (findOneAndUpdate M (dto_id dto) (dto_name dto) (dto_price dto) s) = Inl e \<longrightarrow>
       fst (ItemService_update M dto s) = Inl (StoreFailure e)"
    using update_outcome [of M dto s] by blast
  show "\<forall>err. fst (ItemService_update M dto s) = Inl err \<longrightarrow>
       err = ItemNotFoundError \<and>
         fst (findOneAndUpdate M (dto_id dto) (dto_name dto) (dto_price dto) s) = Inr None \<or>
       (\<exists>e. err = StoreFailure e \<and>
         fst (findOneAndUpdate M (dto_id dto) (dto_name dto) (dto_price dto) s) = Inl e)"
    using update_outcome [of M dto s] by blast
  show "snd (ItemService_delete M i s) = snd (findOneAndDelete M i s)"
    using delete_outcome [of M i s] by blast
  show "\<forall>e. fst (findOneAndDelete M i s) = Inl e \<longrightarrow>
       fst (ItemService_delete M i s) = Inl (StoreFailure e)"
    using delete_outcome [of M i s] by blast
  show "\<forall>err. fst (ItemService_delete M i s) = Inl err \<longrightarrow>
       err = ItemNotFoundError \<and> fst (findOneAndDelete M i s) = Inr None \<or>
       (\<exists>e. err = StoreFailure e \<and> fst (findOneAndDelete M i s) = Inl e)"
    using delete_outcome [of M i s] by blast
qed

text \<open>The theorem at the sample data.\<close>

theorem only_domain_error_witness:
  "fst (save Item (new_Item widget) (widget_store True)) = Inl DuplicateKey \<and>
   fst (ItemService_create Item widget (widget_store True)) = Inl (StoreFailure DuplicateKey) \<and>
   snd (ItemService_create Item widget (widget_store True)) = widget_store True \<and>
   fst (findOne Item 2 (widget_store True)) = Inr None \<and>
   fst (ItemService_get Item 2 (widget_store True)) = Inl ItemNotFoundError"
proof -
  have s: "save Item (new_Item widget) (widget_store True) = (Inl DuplicateKey, widget_store True)"
    by (simp add: widget_store_eq Item_def Item_save_def has_id_def)
  have f: "fst (findOne Item 2 (widget_store True)) = Inr None"
    by (simp add: widget_store_eq Item_def Item_findOne_def sample_simps)
  have g: "fst (ItemService_get Item 2 (widget_store True)) = Inl ItemNotFoundError"
    by (simp add: widget_store_eq get_Item sample_simps)
  from s have s1: "fst (save Item (new_Item widget) (widget_store True)) = Inl DuplicateKey"
    and s2: "snd (save Item (new_Item widget) (widget_store True)) = widget_store True"
    by simp_all
  from only_domain_error [of Item "widget_store True" 2 widget] s1
  have c1: "fst (ItemService_create Item widget (widget_store True)) = Inl (StoreFailure DuplicateKey)"
    by blast
  from only_domain_error [of Item "widget_store True" 2 widget] s2
  have c2: "snd (ItemService_create Item widget (widget_store True)) = widget_store True"
    by simp
  from s1 c1 c2 f g show ?thesis by simp
qed

text \<open>
  Claim C10, amended. \<open>dbConnectionString\<close> is \<^verbatim>\<open>DB_CONNECTION_STRING\<close> when that is set
  and not empty, and the empty string otherwise; \<open>port\<close> is \<^verbatim>\<open>parseInt(PORT, 10)\<close> when
  \<^verbatim>\<open>PORT\<close> is set and not empty, and 3000 otherwise. \<^verbatim>\<open>parseInt(v, 10)\<close> is \<open>NaN\<close> exactly
  when \<open>v\<close> is not some white space, then at most one sign, then a decimal digit,
  then anything.
\<close>

theorem configuration_from_env:
  "dbConnectionString (configuration env) =
     (case env ''DB_CONNECTION_STRING'' of None \<Rightarrow> []
      | Some v \<Rightarrow> if v \<noteq> [] then v else []) \<and>
   port (configuration env) =
     (case env ''PORT'' of None \<Rightarrow> Num 3000
      | Some v \<Rightarrow> if v \<noteq> [] then parseInt v 10 else Num 3000) \<and>
   (parseInt v 10 = NaN \<longleftrightarrow>
      \<not> (\<exists>ws sg d rest. v = ws @ sg @ d # rest \<and> (\<forall>c\<in>set ws. is_white_space c) \<and>
           (sg = [] \<or> sg = lit ''+'' \<or> sg = lit ''-'') \<and> 48 \<le> unat d \<and> unat d \<le> 57))"
proof -
  have "dbConnectionString (configuration env) =
     (case env ''DB_CONNECTION_STRING'' of None \<Rightarrow> []
      | Some v \<Rightarrow> if v \<noteq> [] then v else [])"
    by (simp add: configuration_def or_default_def lit_def split: option.splits)
  moreover have "port (configuration env) =
     (case env ''PORT'' of None \<Rightarrow> Num 3000
      | Some v \<Rightarrow> if v \<noteq> [] then parseInt v 10 else Num 3000)"
    by (simp add: configuration_def or_default_def parseInt_3000 split: option.splits)
  moreover have "parseInt v 10 = NaN \<longleftrightarrow>
      \<not> (\<exists>ws sg d rest. v = ws @ sg @ d # rest \<and> (\<forall>c\<in>set ws. is_white_space c) \<and>
           (sg = [] \<or> sg = lit ''+'' \<or> sg = lit ''-'') \<and> 48 \<le> unat d \<and> unat d \<le> 57)"
    using parseInt_10_number parseInt_10_number_split [of v] by blast
  ultimately show ?thesis by blast
qed

text \<open>The theorem at the sample data.\<close>

theorem configuration_from_env_witness:
  "configuration env_sample = \<lparr>port = Num 8080, dbConnectionString = lit ''mongodb://db/items''\<rparr> \<and>
   configuration env_not_a_number = \<lparr>port = NaN, dbConnectionString = []\<rparr> \<and>
   configuration Map.empty = \<lparr>port = Num 3000, dbConnectionString = []\<rparr> \<and>
   parseInt (lit ''abc'') 10 = NaN \<and>
   \<not> (\<exists>ws sg d rest. lit ''abc'' = ws @ sg @ d # rest \<and> (\<forall>c\<in>set ws. is_white_space c) \<and>
           (sg = [] \<or> sg = lit ''+'' \<or> sg = lit ''-'') \<and> 48 \<le> unat d \<and> unat d \<le> 57)"
proof -
  have n: "parseInt (lit ''abc'') 10 = NaN"
    by (simp add: parse_simps)
  have p: "parseInt (lit ''8080'') 10 = Num 8080"
    by (simp add: parse_simps)
  have a: "configuration env_sample = \<lparr>port = Num 8080, dbConnectionString = lit ''mongodb://db/items''\<rparr>"
    using configuration_from_env [of env_sample "lit ''abc''"] p
    by (simp add: env_sample_def lit_def Configuration.equality)
  have b: "configuration env_not_a_number = \<lparr>port = NaN, dbConnectionString = []\<rparr>"
    using configuration_from_env [of env_not_a_number "lit ''abc''"] n
    by (simp add: env_not_a_number_def lit_def Configuration.equality)
  have c: "configuration Map.empty = \<lparr>port = Num 3000, dbConnectionString = []\<rparr>"
    using configuration_from_env [of Map.empty "lit ''abc''"]
    by (simp add: Configuration.equality)
  from configuration_from_env [of env_sample "lit ''abc''"] n
  have "\<not> (\<exists>ws sg d rest. lit ''abc'' = ws @ sg @ d # rest \<and> (\<forall>c\<in>set ws. is_white_space c) \<and>
           (sg = [] \<or> sg = lit ''+'' \<or> sg = lit ''-'') \<and> 48 \<le> unat d \<and> unat d \<le> 57)"
    by blast
  with a b c n show ?thesis by blast
qed

text \<open>
  \<^verbatim>\<open>PORT=80abc\<close> is not a number, and the port is 80, not \<open>NaN\<close>.
\<close>

theorem port_numeric_prefix_counterexample:
  "env_numeric_prefix ''PORT'' = Some (lit ''80abc'') \<and>
   port (configuration env_numeric_prefix) = Num 80 \<and>
   port (configuration env_numeric_prefix) \<noteq> NaN"
  by (simp add: env_numeric_prefix_def configuration_def parse_simps)

end
